theory Spec2Isabelle
  imports Complex_Main "HOL-Library.Sublist"
begin

section \<open>Portfolio simulation: mean-variance cloud and efficient frontier\<close>

text \<open>
  A shallow embedding of \<^verbatim>\<open>chapter10/portfolio_simulation.py\<close> (class
  \<^verbatim>\<open>PortfolioSimulation\<close>). Python exceptions are values of the type \<open>error\<close>;
  a function that can raise returns \<open>error + 'a\<close> with \<open>Inl\<close> for the exception.
  The two objects that the class mutates and that outlive a raised exception, the
  asset provider and the generator behind \<^verbatim>\<open>np.random\<close>, are threaded through as an
  explicit \<open>world\<close>.
\<close>

subsection \<open>Exceptions\<close>

datatype error =
    ValueError
  | IndexError
  | KeyError
  | AttributeError
  | TypeError
  | ModuleNotFoundError

subsection \<open>Floating-point values\<close>

text \<open>
  A float64 is a real number or one of the special values \<^verbatim>\<open>inf\<close>, \<^verbatim>\<open>-inf\<close>,
  \<^verbatim>\<open>nan\<close>. Arithmetic on finite values is exact real arithmetic: rounding, overflow to
  infinity and the sign of zero are not modelled. The special values follow IEEE 754,
  which numpy implements: a finite nonzero value divided by zero is an infinity, zero divided
  by zero and zero times infinity are \<^verbatim>\<open>nan\<close>, and \<^verbatim>\<open>nan\<close> propagates.
\<close>

datatype npfloat = Fin real | PInf | NInf | NaN

fun signum :: "npfloat \<Rightarrow> real" where
  "signum (Fin a) = sgn a"
| "signum PInf = 1"
| "signum NInf = - 1"
| "signum NaN = 0"

definition inf_of_sign :: "real \<Rightarrow> npfloat" where
  "inf_of_sign s = (if 0 < s then PInf else if s < 0 then NInf else NaN)"

fun fneg :: "npfloat \<Rightarrow> npfloat" where
  "fneg (Fin a) = Fin (- a)"
| "fneg PInf = NInf"
| "fneg NInf = PInf"
| "fneg NaN = NaN"

fun fadd :: "npfloat \<Rightarrow> npfloat \<Rightarrow> npfloat" where
  "fadd (Fin a) (Fin b) = Fin (a + b)"
| "fadd NaN y = NaN"
| "fadd x NaN = NaN"
| "fadd (Fin a) y = y"
| "fadd x (Fin b) = x"
| "fadd x y = (if x = y then x else NaN)"

definition fsub :: "npfloat \<Rightarrow> npfloat \<Rightarrow> npfloat" where
  "fsub x y = fadd x (fneg y)"

fun fmul :: "npfloat \<Rightarrow> npfloat \<Rightarrow> npfloat" where
  "fmul (Fin a) (Fin b) = Fin (a * b)"
| "fmul NaN y = NaN"
| "fmul x NaN = NaN"
| "fmul x y = inf_of_sign (signum x * signum y)"

fun fdiv :: "npfloat \<Rightarrow> npfloat \<Rightarrow> npfloat" where
  "fdiv (Fin a) (Fin b) = (if b = 0 then inf_of_sign (sgn a) else Fin (a / b))"
| "fdiv NaN y = NaN"
| "fdiv x NaN = NaN"
| "fdiv (Fin a) y = Fin 0"
| "fdiv x (Fin b) = inf_of_sign (signum x * (if b < 0 then - 1 else 1))"
| "fdiv x y = NaN"

text \<open>
  The comparison \<^verbatim>\<open><=\<close>: \<^verbatim>\<open>-inf\<close> is below every real and \<^verbatim>\<open>inf\<close> above, and no
  comparison with \<^verbatim>\<open>nan\<close> holds.
\<close>

fun fle :: "npfloat \<Rightarrow> npfloat \<Rightarrow> bool" where
  "fle (Fin a) (Fin b) = (a \<le> b)"
| "fle NaN y = False"
| "fle x NaN = False"
| "fle NInf y = True"
| "fle x PInf = True"
| "fle x y = False"

definition fmin :: "npfloat \<Rightarrow> npfloat \<Rightarrow> npfloat" where
  "fmin x y = (if fle x y then x else y)"

definition fmax :: "npfloat \<Rightarrow> npfloat \<Rightarrow> npfloat" where
  "fmax x y = (if fle x y then y else x)"

subsection \<open>numpy arrays\<close>

text \<open>
  A two-dimensional array is its shape and its indexing function; only the entries inside
  the shape are meaningful. A one-dimensional array is a list. Keeping the shape apart
  from the entries matters for a provider without tickers: the weight batch then has the
  shape \<open>(2000, 0)\<close> and still 2000 (empty) rows.
\<close>

record 'a ndarray2 =
  nrows :: nat
  ncols :: nat
  item :: "nat \<Rightarrow> nat \<Rightarrow> 'a"

text \<open>\<^verbatim>\<open>A[i]\<close>: the \<open>i\<close>-th row, \<^verbatim>\<open>IndexError\<close> beyond the first dimension.\<close>

definition np_row :: "'a ndarray2 \<Rightarrow> nat \<Rightarrow> error + 'a list" where
  "np_row A i = (if i < nrows A then Inr (map (item A i) [0..<ncols A]) else Inl IndexError)"

text \<open>\<^verbatim>\<open>v[i]\<close> on a one-dimensional array.\<close>

definition np_get :: "'a list \<Rightarrow> nat \<Rightarrow> error + 'a" where
  "np_get v i = (if i < length v then Inr (v ! i) else Inl IndexError)"

text \<open>\<^verbatim>\<open>A.T\<close>\<close>

definition np_T :: "'a ndarray2 \<Rightarrow> 'a ndarray2" where
  "np_T A = \<lparr> nrows = ncols A, ncols = nrows A, item = (\<lambda>i j. item A j i) \<rparr>"

text \<open>\<^verbatim>\<open>A.sum(axis=1)\<close> on an integer array: one sum per row.\<close>

definition np_sum_axis1 :: "nat ndarray2 \<Rightarrow> nat list" where
  "np_sum_axis1 A = map (\<lambda>i. sum_list (map (item A i) [0..<ncols A])) [0..<nrows A]"

text \<open>
  \<^verbatim>\<open>A * v\<close> for an integer array \<open>A\<close> of shape \<open>(n, m)\<close> and a float vector \<open>v\<close> of
  length \<open>m\<close>: \<open>v\<close> is broadcast along the rows, entry \<open>(i, j)\<close> is \<open>A[i, j] * v[j]\<close>.
  Shapes that do not fit raise \<^verbatim>\<open>ValueError\<close>. (numpy also stretches a dimension of
  length 1; the only call site has \<open>m = 2000\<close> on both sides.)
\<close>

definition np_mul_broadcast :: "nat ndarray2 \<Rightarrow> npfloat list \<Rightarrow> error + npfloat ndarray2" where
  "np_mul_broadcast A v =
     (if ncols A = length v
      then Inr \<lparr> nrows = nrows A, ncols = ncols A,
                 item = (\<lambda>i j. fmul (Fin (real (item A i j))) (v ! j)) \<rparr>
      else Inl ValueError)"

text \<open>
  \<^verbatim>\<open>np.random.randint(high, size=(r, c))\<close>. The generator is the infinite sequence of
  raw draws it will still deliver; a call takes the next \<open>r * c\<close> of them, reduced to
  \<open>[0, high)\<close>, in row-major order, and leaves the rest. Every array of shape
  \<open>(r, c)\<close> with entries in \<open>[0, high)\<close> is the result for some generator.
  \<^verbatim>\<open>high <= 0\<close> raises \<^verbatim>\<open>ValueError\<close>.
\<close>

type_synonym generator = "nat \<Rightarrow> nat"

definition randint :: "nat \<Rightarrow> nat \<times> nat \<Rightarrow> generator \<Rightarrow> (error + nat ndarray2) \<times> generator" where
  "randint high shape g =
     (case shape of (r, c) \<Rightarrow>
        if high = 0 then (Inl ValueError, g)
        else (Inr \<lparr> nrows = r, ncols = c, item = (\<lambda>i j. g (i * c + j) mod high) \<rparr>,
              (\<lambda>k. g (k + r * c))))"

text \<open>
  \<^verbatim>\<open>np.linspace(start, stop, num)\<close> with the default \<^verbatim>\<open>endpoint=True\<close>, after
  numpy's \<^verbatim>\<open>function_base.linspace\<close>: \<^verbatim>\<open>div = num - 1\<close>,
  \<^verbatim>\<open>delta = stop - start\<close>, \<^verbatim>\<open>y = arange(0, num)\<close>; for \<^verbatim>\<open>div > 0\<close> the step is
  \<^verbatim>\<open>delta / div\<close> and \<^verbatim>\<open>y\<close> becomes \<^verbatim>\<open>y * step\<close>, or \<^verbatim>\<open>(y / div) * delta\<close> when the
  step is zero; then \<^verbatim>\<open>y += start\<close>, and for \<^verbatim>\<open>num > 1\<close> the last entry is overwritten
  with \<^verbatim>\<open>stop\<close>. The only divisor is \<^verbatim>\<open>div\<close>, here \<open>linspace_div num\<close>.
\<close>

definition linspace_div :: "nat \<Rightarrow> nat" where
  "linspace_div num = num - 1"

definition linspace :: "npfloat \<Rightarrow> npfloat \<Rightarrow> nat \<Rightarrow> npfloat list" where
  "linspace start stop num =
     (let dv = linspace_div num;
          delta = fsub stop start;
          y = map (\<lambda>i. Fin (real i)) [0..<num];
          y = (if 0 < dv
               then (let step = fdiv delta (Fin (real dv))
                     in if step = Fin 0
                        then map (\<lambda>v. fmul (fdiv v (Fin (real dv))) delta) y
                        else map (\<lambda>v. fmul v step) y)
               else map (\<lambda>v. fmul v delta) y);
          y = map (\<lambda>v. fadd v start) y
      in if 1 < num then y[num - 1 := stop] else y)"

subsection \<open>pandas frames\<close>

text \<open>
  A \<^verbatim>\<open>DataFrame\<close> with a default index is the ordered list of its named columns.
  \<^verbatim>\<open>pd.DataFrame()\<close> is the frame without columns.
\<close>

type_synonym Series = "npfloat list"
type_synonym DataFrame = "(string \<times> Series) list"

definition pd_DataFrame :: DataFrame where
  "pd_DataFrame = []"

definition frame_len :: "DataFrame \<Rightarrow> nat" where
  "frame_len df = (case df of [] \<Rightarrow> 0 | (n, c) # rest \<Rightarrow> length c)"

text \<open>\<^verbatim>\<open>df[name]\<close>: the column, \<^verbatim>\<open>KeyError\<close> if there is none of that name.\<close>

definition df_getitem :: "DataFrame \<Rightarrow> string \<Rightarrow> error + Series" where
  "df_getitem df name = (case map_of df name of None \<Rightarrow> Inl KeyError | Some c \<Rightarrow> Inr c)"

definition column_or_nan :: "DataFrame \<Rightarrow> string \<Rightarrow> Series" where
  "column_or_nan df name =
     (case map_of df name of None \<Rightarrow> replicate (frame_len df) NaN | Some c \<Rightarrow> c)"

text \<open>
  \<^verbatim>\<open>pd.concat([a, b], ignore_index=True)\<close>: the rows of \<open>b\<close> below the rows of \<open>a\<close>
  under a fresh index; the columns are those of \<open>a\<close> followed by the new ones of \<open>b\<close>,
  and a column that one frame lacks is filled with \<^verbatim>\<open>nan\<close> over that frame's rows.
\<close>

definition pd_concat :: "DataFrame \<Rightarrow> DataFrame \<Rightarrow> DataFrame" where
  "pd_concat a b =
     map (\<lambda>name. (name, column_or_nan a name @ column_or_nan b name))
         (map fst a @ filter (\<lambda>name. name \<notin> set (map fst a)) (map fst b))"

text \<open>
  \<^verbatim>\<open>np.min(s)\<close> and \<^verbatim>\<open>np.max(s)\<close> on a pandas \<^verbatim>\<open>Series\<close>. numpy hands a
  reduction of an object that is not an \<^verbatim>\<open>ndarray\<close> to the object's own method, here
  \<^verbatim>\<open>Series.min\<close> and \<^verbatim>\<open>Series.max\<close> with their default \<^verbatim>\<open>skipna=True\<close>: \<^verbatim>\<open>nan\<close>
  entries are left out, and a series without any other entry (an empty one as well) gives
  \<^verbatim>\<open>nan\<close>; nothing is raised.
\<close>

definition dropna :: "Series \<Rightarrow> Series" where
  "dropna s = filter (\<lambda>x. x \<noteq> NaN) s"

definition np_min :: "Series \<Rightarrow> npfloat" where
  "np_min s = (case dropna s of [] \<Rightarrow> NaN | x # xs \<Rightarrow> foldl fmin x xs)"

definition np_max :: "Series \<Rightarrow> npfloat" where
  "np_max s = (case dropna s of [] \<Rightarrow> NaN | x # xs \<Rightarrow> foldl fmax x xs)"

subsection \<open>The collaborators\<close>

text \<open>
  Modelled from the spec: the class \<^verbatim>\<open>PortfolioAssets\<close> of
  \<^verbatim>\<open>chapter10.portfolio_assets\<close>, which the source imports and does not define.
  The spec's asset provider exposes an ordered sequence of ticker identifiers, a mutable
  \<open>weights\<close> slot on which no validation is observed, and the read-only derived
  \<open>expected_return\<close> and \<open>volatility\<close>, computed from the current weights against
  the provider's internal return and covariance data. The internal data is the pair of
  functions that the two properties apply to the current weights.
\<close>

record PortfolioAssets =
  ticker_symbols :: "string list"
  weights :: "npfloat list"
  return_data :: "npfloat list \<Rightarrow> npfloat"
  covariance_data :: "npfloat list \<Rightarrow> npfloat"

definition expected_return :: "PortfolioAssets \<Rightarrow> npfloat" where
  "expected_return a = return_data a (weights a)"

definition volatility :: "PortfolioAssets \<Rightarrow> npfloat" where
  "volatility a = covariance_data a (weights a)"

text \<open>
  Modelled from the spec: an implementation class of \<^verbatim>\<open>PortfolioOptimizer\<close>, which
  the source only loads by name. The spec's optimizer is constructed with the named
  parameter \<^verbatim>\<open>expected_mean_return\<close>, exposes \<^verbatim>\<open>fit(asset_provider)\<close>, which
  performs the optimization on the shared provider, and the read-only
  \<^verbatim>\<open>optimal_variance\<close>, a float or the absent value. \<open>'o\<close> is the state of an
  optimizer instance.
\<close>

record 'o PortfolioOptimizer =
  construct :: "npfloat \<Rightarrow> 'o"
  fit :: "'o \<Rightarrow> PortfolioAssets \<Rightarrow> 'o \<times> PortfolioAssets"
  optimal_variance :: "'o \<Rightarrow> npfloat option"

text \<open>
  What \<^verbatim>\<open>importlib\<close> can import: module names to modules, a module being the
  optimizer classes it binds by name. The parameter is documented as the fully qualified
  name of an implementation of \<^verbatim>\<open>PortfolioOptimizer\<close>; attributes of another kind
  are outside the model.
\<close>

type_synonym 'o py_module = "string \<rightharpoonup> 'o PortfolioOptimizer"
type_synonym 'o importable = "string \<rightharpoonup> 'o py_module"

text \<open>The state shared with the caller: the provider object and numpy's global generator.\<close>

record world =
  assets :: PortfolioAssets
  rng :: generator

subsection \<open>The class \<^verbatim>\<open>PortfolioSimulation\<close>\<close>

definition N_SIMULATION_MEAN_VAR :: nat where
  "N_SIMULATION_MEAN_VAR = 2000"

definition N_SIMULATION_EFFICIENT_FRONTIER :: nat where
  "N_SIMULATION_EFFICIENT_FRONTIER = 100"

text \<open>
  The instance attributes \<^verbatim>\<open>_portfolio_optimizer_class\<close>, \<^verbatim>\<open>_mean_var_dist\<close> and
  \<^verbatim>\<open>_efficient_frontier\<close>; \<open>None\<close> is Python's \<^verbatim>\<open>None\<close>, and the value of an
  attribute during construction before its assignment. \<^verbatim>\<open>_portfolio_assets\<close> refers
  to the provider in the \<open>world\<close>.
\<close>

record 'o PortfolioSimulation =
  self_portfolio_optimizer_class :: "'o PortfolioOptimizer"
  self_mean_var_dist :: "DataFrame option"
  self_efficient_frontier :: "DataFrame option"

text \<open>
  \<^verbatim>\<open>s.rsplit(sep, 1)\<close> for a one-character separator: the text before and after the last
  separator, or the whole string alone when it has none.
\<close>

definition rsplit1 :: "char \<Rightarrow> string \<Rightarrow> string list" where
  "rsplit1 sep s =
     (let r = rev s;
          after = rev (takeWhile (\<lambda>c. c \<noteq> sep) r);
          rest = dropWhile (\<lambda>c. c \<noteq> sep) r
      in if rest = [] then [s] else [rev (tl rest), after])"

text \<open>\<^verbatim>\<open>a, b = xs\<close>: \<^verbatim>\<open>ValueError\<close> unless \<open>xs\<close> has exactly two elements.\<close>

fun unpack2 :: "'a list \<Rightarrow> error + 'a \<times> 'a" where
  "unpack2 [a, b] = Inr (a, b)"
| "unpack2 xs = Inl ValueError"

text \<open>
  \<^verbatim>\<open>importlib.import_module(name)\<close> without a package: a name that starts with a
  dot is a relative import and raises \<^verbatim>\<open>TypeError\<close>, the empty name raises
  \<^verbatim>\<open>ValueError\<close>, a name that nothing provides raises \<^verbatim>\<open>ModuleNotFoundError\<close>.
\<close>

definition import_module :: "'o importable \<Rightarrow> string \<Rightarrow> error + 'o py_module" where
  "import_module mods name =
     (case name of
        [] \<Rightarrow> Inl ValueError
      | c # cs \<Rightarrow>
          if c = CHR ''.'' then Inl TypeError
          else (case mods name of None \<Rightarrow> Inl ModuleNotFoundError | Some m \<Rightarrow> Inr m))"

definition getattr :: "'o py_module \<Rightarrow> string \<Rightarrow> error + 'o PortfolioOptimizer" where
  "getattr m name = (case m name of None \<Rightarrow> Inl AttributeError | Some c \<Rightarrow> Inr c)"

text \<open>
  \<^verbatim>\<open>_load_portfolio_optimizer_class\<close> (lines 38 to 41). The argument is a string or
  \<^verbatim>\<open>None\<close>, and \<^verbatim>\<open>None\<close> has no \<^verbatim>\<open>rsplit\<close>. The value is the class that becomes
  \<^verbatim>\<open>self._portfolio_optimizer_class\<close>.
\<close>

definition load_portfolio_optimizer_class ::
    "'o importable \<Rightarrow> string option \<Rightarrow> error + 'o PortfolioOptimizer" where
  "load_portfolio_optimizer_class mods full_class_name =
     (case full_class_name of
        None \<Rightarrow> Inl AttributeError
      | Some s \<Rightarrow>
          (case unpack2 (rsplit1 CHR ''.'' s) of
             Inl e \<Rightarrow> Inl e
           | Inr (module_name, class_name) \<Rightarrow>
               (case import_module mods module_name of
                  Inl e \<Rightarrow> Inl e
                | Inr m \<Rightarrow> getattr m class_name)))"

text \<open>
  \<^verbatim>\<open>norm_factor = np.array(1.0 / ri.sum(axis=1))\<close> (line 52): one float division per
  row, with no test of the divisor.
\<close>

definition norm_factor :: "nat ndarray2 \<Rightarrow> npfloat list" where
  "norm_factor ri = map (\<lambda>s. fdiv (Fin 1) (Fin (real s))) (np_sum_axis1 ri)"

text \<open>\<^verbatim>\<open>_generate_random_asset_weight_distribution\<close> (lines 43 to 53).\<close>

definition generate_random_asset_weight_distribution ::
    "world \<Rightarrow> (error + npfloat ndarray2) \<times> world" where
  "generate_random_asset_weight_distribution w =
     (case randint 100 (N_SIMULATION_MEAN_VAR, length (ticker_symbols (assets w))) (rng w) of
        (Inl e, g) \<Rightarrow> (Inl e, w\<lparr>rng := g\<rparr>)
      | (Inr ri, g) \<Rightarrow>
          (case np_mul_broadcast (np_T ri) (norm_factor ri) of
             Inl e \<Rightarrow> (Inl e, w\<lparr>rng := g\<rparr>)
           | Inr m \<Rightarrow> (Inr (np_T m), w\<lparr>rng := g\<rparr>)))"

text \<open>
  \<^verbatim>\<open>pd.DataFrame({'Expected Return': [means], 'Volatility': [var]})\<close>: the frame of one
  point.
\<close>

definition point_frame :: "npfloat \<Rightarrow> npfloat \<Rightarrow> DataFrame" where
  "point_frame means var = [(''Expected Return'', [means]), (''Volatility'', [var])]"

text \<open>
  The loop of lines 73 to 84 over the indices still to visit: the row is read, assigned to
  the provider, the two properties are read from the provider, and the point is
  concatenated below the frame.
\<close>

fun simulate_loop ::
    "npfloat ndarray2 \<Rightarrow> nat list \<Rightarrow> DataFrame \<Rightarrow> PortfolioAssets
       \<Rightarrow> (error + DataFrame) \<times> PortfolioAssets" where
  "simulate_loop weights_batch [] expected_return_volatility a =
     (Inr expected_return_volatility, a)"
| "simulate_loop weights_batch (i_batch # todo) expected_return_volatility a =
     (case np_row weights_batch i_batch of
        Inl e \<Rightarrow> (Inl e, a)
      | Inr row \<Rightarrow>
          (let a' = a\<lparr>weights := row\<rparr>;
               means = expected_return a';
               var = volatility a'
           in simulate_loop weights_batch todo
                (pd_concat expected_return_volatility (point_frame means var)) a'))"

text \<open>\<^verbatim>\<open>_simulate_expected_return_volatility_distribution\<close> (lines 55 to 86).\<close>

definition simulate_expected_return_volatility_distribution ::
    "world \<Rightarrow> (error + DataFrame) \<times> world" where
  "simulate_expected_return_volatility_distribution w =
     (case generate_random_asset_weight_distribution w of
        (Inl e, w1) \<Rightarrow> (Inl e, w1)
      | (Inr weights_batch, w1) \<Rightarrow>
          (case simulate_loop weights_batch [0..<N_SIMULATION_MEAN_VAR] pd_DataFrame (assets w1) of
             (r, a) \<Rightarrow> (r, w1\<lparr>assets := a\<rparr>)))"

text \<open>
  The target levels of lines 108 to 111: the column is looked up once for each bound, the
  lookup of a missing column raising \<^verbatim>\<open>KeyError\<close> before anything else is evaluated.
\<close>

definition target_means_space :: "DataFrame \<Rightarrow> error + npfloat list" where
  "target_means_space mean_var_dist =
     (case df_getitem mean_var_dist ''Expected Return'' of
        Inl e \<Rightarrow> Inl e
      | Inr lo_column \<Rightarrow>
          (case df_getitem mean_var_dist ''Expected Return'' of
             Inl e \<Rightarrow> Inl e
           | Inr hi_column \<Rightarrow>
               Inr (linspace (np_min lo_column) (np_max hi_column)
                      N_SIMULATION_EFFICIENT_FRONTIER)))"

text \<open>
  The loop of lines 113 to 129 over the indices still to visit: a fresh optimizer for the
  target, its fit against the provider, and a point below the frame only when
  \<^verbatim>\<open>optimal_variance\<close> is not \<^verbatim>\<open>None\<close>.
\<close>

fun frontier_loop ::
    "'o PortfolioOptimizer \<Rightarrow> npfloat list \<Rightarrow> nat list \<Rightarrow> DataFrame \<Rightarrow> PortfolioAssets
       \<Rightarrow> (error + DataFrame) \<times> PortfolioAssets" where
  "frontier_loop cls space [] efficient_frontier a = (Inr efficient_frontier, a)"
| "frontier_loop cls space (i_batch # todo) efficient_frontier a =
     (case np_get space i_batch of
        Inl e \<Rightarrow> (Inl e, a)
      | Inr target_mean \<Rightarrow>
          (case fit cls (construct cls target_mean) a of
             (portfolio_optimizer, a') \<Rightarrow>
               (case optimal_variance cls portfolio_optimizer of
                  None \<Rightarrow> frontier_loop cls space todo efficient_frontier a'
                | Some optimal_var \<Rightarrow>
                    frontier_loop cls space todo
                      (pd_concat efficient_frontier (point_frame target_mean optimal_var)) a')))"

text \<open>
  \<^verbatim>\<open>_compute_efficient_frontier_path\<close> (lines 88 to 131). It returns the frontier and,
  since it may assign \<^verbatim>\<open>self._mean_var_dist\<close>, the instance.
\<close>

definition compute_efficient_frontier_path ::
    "'o PortfolioSimulation \<Rightarrow> world \<Rightarrow> (error + DataFrame) \<times> 'o PortfolioSimulation \<times> world" where
  "compute_efficient_frontier_path self w =
     (case (case self_mean_var_dist self of
              Some d \<Rightarrow> (Inr d, self, w)
            | None \<Rightarrow>
                (case simulate_expected_return_volatility_distribution w of
                   (Inl e, w1) \<Rightarrow> (Inl e, self, w1)
                 | (Inr d, w1) \<Rightarrow> (Inr d, self\<lparr>self_mean_var_dist := Some d\<rparr>, w1))) of
        (Inl e, self1, w1) \<Rightarrow> (Inl e, self1, w1)
      | (Inr mean_var_dist, self1, w1) \<Rightarrow>
          (case target_means_space mean_var_dist of
             Inl e \<Rightarrow> (Inl e, self1, w1)
           | Inr space \<Rightarrow>
               (case frontier_loop (self_portfolio_optimizer_class self1) space
                       [0..<N_SIMULATION_EFFICIENT_FRONTIER] pd_DataFrame (assets w1) of
                  (r, a) \<Rightarrow> (r, self1, w1\<lparr>assets := a\<rparr>))))"

text \<open>
  \<^verbatim>\<open>__init__\<close> (lines 29 to 36): the constructed instance, or the exception that ends
  the construction, together with the world as the construction leaves it.
\<close>

definition init ::
    "'o importable \<Rightarrow> world \<Rightarrow> string option \<Rightarrow> (error + 'o PortfolioSimulation) \<times> world" where
  "init mods w portfolio_optimizer_full_class_name =
     (case load_portfolio_optimizer_class mods portfolio_optimizer_full_class_name of
        Inl e \<Rightarrow> (Inl e, w)
      | Inr cls \<Rightarrow>
          (case simulate_expected_return_volatility_distribution w of
             (Inl e, w1) \<Rightarrow> (Inl e, w1)
           | (Inr d, w1) \<Rightarrow>
               (case compute_efficient_frontier_path
                       \<lparr> self_portfolio_optimizer_class = cls,
                         self_mean_var_dist = Some d,
                         self_efficient_frontier = None \<rparr> w1 of
                  (Inl e, self, w2) \<Rightarrow> (Inl e, w2)
                | (Inr f, self, w2) \<Rightarrow> (Inr (self\<lparr>self_efficient_frontier := Some f\<rparr>), w2))))"

text \<open>
  The two properties of lines 133 to 139. A property read is a call on the instance; it
  gives the value read and the instance as the call leaves it.
\<close>

definition mean_variance_distribution ::
    "'o PortfolioSimulation \<Rightarrow> DataFrame option \<times> 'o PortfolioSimulation" where
  "mean_variance_distribution self = (self_mean_var_dist self, self)"

definition efficient_frontier ::
    "'o PortfolioSimulation \<Rightarrow> DataFrame option \<times> 'o PortfolioSimulation" where
  "efficient_frontier self = (self_efficient_frontier self, self)"

section \<open>Reference notions of the specification\<close>

text \<open>
  A sequence of Mean-Variance points as the frame that holds it: nothing for no point (the
  frame an accumulation starts from), else the column of expected returns and the column of
  volatilities.
\<close>

definition points_frame :: "(npfloat \<times> npfloat) list \<Rightarrow> DataFrame" where
  "points_frame ps =
     (if ps = [] then pd_DataFrame
      else [(''Expected Return'', map fst ps), (''Volatility'', map snd ps)])"

text \<open>The point read from the provider once a weight row is assigned to it.\<close>

definition sampled_point :: "PortfolioAssets \<Rightarrow> npfloat list \<Rightarrow> npfloat \<times> npfloat" where
  "sampled_point a row =
     (expected_return (a\<lparr>weights := row\<rparr>), volatility (a\<lparr>weights := row\<rparr>))"

text \<open>
  The sweep in the specification's words: for each target value in the order given, a fresh
  optimizer is constructed for the target and fitted against the provider; a present
  \<open>optimal_variance\<close> gives the point of the target and that variance, an absent one
  gives nothing. The value is the sequence of points and the provider after the last fit.
\<close>

fun sweep_targets ::
    "'o PortfolioOptimizer \<Rightarrow> npfloat list \<Rightarrow> PortfolioAssets
       \<Rightarrow> (npfloat \<times> npfloat) list \<times> PortfolioAssets" where
  "sweep_targets cls [] a = ([], a)"
| "sweep_targets cls (t # ts) a =
     (case fit cls (construct cls t) a of
        (opt, a') \<Rightarrow>
          (case sweep_targets cls ts a' of
             (ps, a'') \<Rightarrow>
               ((case optimal_variance cls opt of None \<Rightarrow> ps | Some v \<Rightarrow> (t, v) # ps), a'')))"


text \<open>A caller's reads of the two properties, one after the other.\<close>

datatype accessor = Mean_variance_distribution | Efficient_frontier

fun read_accessor ::
    "accessor \<Rightarrow> 'o PortfolioSimulation \<Rightarrow> DataFrame option \<times> 'o PortfolioSimulation" where
  "read_accessor Mean_variance_distribution self = mean_variance_distribution self"
| "read_accessor Efficient_frontier self = efficient_frontier self"

fun read_accessors ::
    "accessor list \<Rightarrow> 'o PortfolioSimulation \<Rightarrow> DataFrame option list \<times> 'o PortfolioSimulation" where
  "read_accessors [] self = ([], self)"
| "read_accessors (c # cs) self =
     (case read_accessor c self of
        (v, self') \<Rightarrow> (case read_accessors cs self' of (vs, self'') \<Rightarrow> (v # vs, self'')))"

section \<open>Example inputs\<close>

text \<open>
  A provider of two assets whose expected return is the weights' product with
  \<open>[0.1, 0.2]\<close> and whose volatility is their product with \<open>[0.05, 0.08]\<close>.
\<close>

definition dot :: "npfloat list \<Rightarrow> real list \<Rightarrow> npfloat" where
  "dot ws cs = foldl fadd (Fin 0) (map2 (\<lambda>w c. fmul w (Fin c)) ws cs)"

definition example_assets :: PortfolioAssets where
  "example_assets =
     \<lparr> ticker_symbols = [''AAA'', ''BBB''], weights = [],
       return_data = (\<lambda>ws. dot ws [1 / 10, 2 / 10]),
       covariance_data = (\<lambda>ws. dot ws [5 / 100, 8 / 100]) \<rparr>"

text \<open>A generator whose raw draws are \<open>0, 0, 0, 1, 1, 1, 2, \<dots>\<close>: the first row of a
  batch of two columns is \<open>[0, 0]\<close>, the fifth is \<open>[2, 3]\<close>.\<close>

definition example_world :: world where
  "example_world = \<lparr> assets = example_assets, rng = (\<lambda>k. k div 3) \<rparr>"

text \<open>An optimizer that never finds a solution, and one that is feasible from a target of
  \<open>0.15\<close> on and reports the target's tenth as its variance.\<close>

definition infeasible_optimizer :: "npfloat PortfolioOptimizer" where
  "infeasible_optimizer =
     \<lparr> construct = (\<lambda>t. t), fit = (\<lambda>opt a. (opt, a)), optimal_variance = (\<lambda>opt. None) \<rparr>"

definition threshold_optimizer :: "npfloat PortfolioOptimizer" where
  "threshold_optimizer =
     \<lparr> construct = (\<lambda>t. t), fit = (\<lambda>opt a. (opt, a)),
       optimal_variance = (\<lambda>opt. if fle (Fin (15 / 100)) opt
                                    then Some (fmul opt (Fin (1 / 10))) else None) \<rparr>"

definition example_modules :: "npfloat importable" where
  "example_modules =
     [''mock.optimizers'' \<mapsto>
        [''Infeasible'' \<mapsto> infeasible_optimizer, ''Threshold'' \<mapsto> threshold_optimizer]]"


text \<open>A distribution of two points, and one whose expected returns are all the same.\<close>

definition two_point_distribution :: DataFrame where
  "two_point_distribution =
     [(''Expected Return'', [Fin (2 / 10), Fin (1 / 10)]),
      (''Volatility'', [Fin (8 / 100), Fin (5 / 100)])]"

definition constant_distribution :: DataFrame where
  "constant_distribution =
     [(''Expected Return'', [Fin (1 / 10), Fin (1 / 10), Fin (1 / 10)]),
      (''Volatility'', [Fin (8 / 100), Fin (5 / 100), Fin (6 / 100)])]"

definition example_simulation ::
    "npfloat PortfolioOptimizer \<Rightarrow> DataFrame \<Rightarrow> npfloat PortfolioSimulation" where
  "example_simulation cls d =
     \<lparr> self_portfolio_optimizer_class = cls,
       self_mean_var_dist = Some d,
       self_efficient_frontier = None \<rparr>"

section \<open>Properties of the library operations and of the loops\<close>

lemma randint_shape:
  "randint 100 (r, c) g = (Inr ri, g') \<Longrightarrow> nrows ri = r \<and> ncols ri = c"
  by (auto simp: randint_def)

lemma randint_100:
  "randint 100 (r, c) g =
     (Inr \<lparr> nrows = r, ncols = c, item = (\<lambda>i j. g (i * c + j) mod 100) \<rparr>, (\<lambda>k. g (k + r * c)))"
  by (simp add: randint_def)

lemma length_norm_factor: "length (norm_factor ri) = nrows ri"
  by (simp add: norm_factor_def np_sum_axis1_def)

lemma norm_factor_nth:
  "i < nrows ri \<Longrightarrow> np_row ri i = Inr draws \<Longrightarrow>
   norm_factor ri ! i = fdiv (Fin 1) (Fin (real (sum_list draws)))"
  by (auto simp: norm_factor_def np_sum_axis1_def np_row_def)

lemma generate_result:
  assumes "randint 100 (N_SIMULATION_MEAN_VAR, length (ticker_symbols (assets w))) (rng w) = (Inr ri, g)"
  shows "generate_random_asset_weight_distribution w =
     (Inr \<lparr> nrows = nrows ri, ncols = ncols ri,
            item = (\<lambda>i j. fmul (Fin (real (item ri i j))) (norm_factor ri ! i)) \<rparr>,
      w\<lparr>rng := g\<rparr>)"
  using assms
  by (simp add: generate_random_asset_weight_distribution_def np_mul_broadcast_def np_T_def
      length_norm_factor)

lemma np_row_Inr: "np_row A i = Inr r \<Longrightarrow> i < nrows A \<and> r = map (item A i) [0..<ncols A]"
  by (auto simp: np_row_def split: if_splits)

lemma normalized_row:
  assumes "np_row ri i = Inr draws"
  shows "np_row \<lparr> nrows = nrows ri, ncols = ncols ri,
            item = (\<lambda>i j. fmul (Fin (real (item ri i j))) (norm_factor ri ! i)) \<rparr> i
         = Inr (map (\<lambda>d. fmul (Fin (real d)) (fdiv (Fin 1) (Fin (real (sum_list draws))))) draws)"
proof -
  from np_row_Inr [OF assms] have i: "i < nrows ri" and d: "draws = map (item ri i) [0..<ncols ri]"
    by simp_all
  show ?thesis
    using i norm_factor_nth [OF i assms] by (simp add: np_row_def d comp_def)
qed


lemma sum_zero_all_zero: "sum_list (ds :: nat list) = 0 \<Longrightarrow> d \<in> set ds \<Longrightarrow> d = 0"
  by (induction ds) auto

lemma pd_concat_point:
  "pd_concat (points_frame ps) (point_frame m v) = points_frame (ps @ [(m, v)])"
  by (simp add: pd_concat_def points_frame_def point_frame_def pd_DataFrame_def
      column_or_nan_def frame_len_def)

lemma frontier_loop_points:
  "\<forall>i \<in> set todo. i < length space \<Longrightarrow>
   frontier_loop cls space todo (points_frame ps) a =
     (Inr (points_frame (ps @ fst (sweep_targets cls (map (\<lambda>i. space ! i) todo) a))),
      snd (sweep_targets cls (map (\<lambda>i. space ! i) todo) a))"
proof (induction todo arbitrary: ps a)
  case Nil
  then show ?case by simp
next
  case (Cons i todo)
  from Cons.prems have i: "i < length space" and rest: "\<forall>i \<in> set todo. i < length space"
    by simp_all
  show ?case
    using i Cons.IH [OF rest]
    by (simp add: np_get_def pd_concat_point split: prod.splits option.splits)
qed

lemma sweep_targets_subseq: "subseq (map fst (fst (sweep_targets cls ts a))) ts"
proof (induction ts arbitrary: a)
  case Nil
  then show ?case by simp
next
  case (Cons t ts)
  obtain opt a' where f: "fit cls (construct cls t) a = (opt, a')" by (cases "fit cls (construct cls t) a")
  obtain ps a'' where s: "sweep_targets cls ts a' = (ps, a'')" by (cases "sweep_targets cls ts a'")
  from Cons.IH [of a'] s have "subseq (map fst ps) ts" by simp
  then show ?case by (auto simp: f s split: option.splits)
qed

lemma sweep_targets_length: "length (fst (sweep_targets cls ts a)) \<le> length ts"
proof (induction ts arbitrary: a)
  case Nil
  then show ?case by simp
next
  case (Cons t ts)
  obtain opt a' where f: "fit cls (construct cls t) a = (opt, a')" by (cases "fit cls (construct cls t) a")
  obtain ps a'' where s: "sweep_targets cls ts a' = (ps, a'')" by (cases "sweep_targets cls ts a'")
  from Cons.IH [of a'] s have "length ps \<le> length ts" by simp
  then show ?case by (simp add: f s split: option.splits)
qed

lemma sweep_targets_infeasible:
  "(\<And>opt. optimal_variance cls opt = None) \<Longrightarrow> fst (sweep_targets cls ts a) = []"
  by (induction ts arbitrary: a) (auto split: prod.splits option.splits)

lemma length_linspace: "length (linspace start stop num) = num"
  by (simp add: linspace_def linspace_div_def Let_def)

lemma linspace_finite:
  "linspace (Fin lo) (Fin hi) 100 =
     map (\<lambda>i. Fin (lo + real i * ((hi - lo) / 99))) [0..<100]"
proof (rule nth_equalityI)
  show "length (linspace (Fin lo) (Fin hi) 100) = length (map (\<lambda>i. Fin (lo + real i * ((hi - lo) / 99))) [0..<100])"
    by (simp add: length_linspace)
next
  fix i assume "i < length (linspace (Fin lo) (Fin hi) 100)"
  then have i: "i < 100" by (simp add: length_linspace)
  show "linspace (Fin lo) (Fin hi) 100 ! i = map (\<lambda>i. Fin (lo + real i * ((hi - lo) / 99))) [0..<100] ! i"
  proof (cases "i = 99")
    case True
    then show ?thesis by (simp add: linspace_def linspace_div_def Let_def fsub_def diff_divide_distrib)
  next
    case False
    with i show ?thesis
      by (simp add: linspace_def linspace_div_def Let_def fsub_def nth_list_update algebra_simps)
  qed
qed

lemma dropna_Fin: "dropna (map Fin xs) = map Fin xs"
  by (simp add: dropna_def)

lemma foldl_fmin_Fin: "foldl fmin (Fin x) (map Fin xs) = Fin (Min (set (x # xs)))"
proof (induction xs arbitrary: x)
  case Nil
  then show ?case by simp
next
  case (Cons y ys)
  have "fmin (Fin x) (Fin y) = Fin (min x y)" by (simp add: fmin_def min_def)
  moreover have "Min (insert (min x y) (set ys)) = Min (insert x (insert y (set ys)))"
    by (cases "ys = []") (simp_all add: min.assoc)
  ultimately show ?case using Cons.IH [of "min x y"] by simp
qed

lemma foldl_fmax_Fin: "foldl fmax (Fin x) (map Fin xs) = Fin (Max (set (x # xs)))"
proof (induction xs arbitrary: x)
  case Nil
  then show ?case by simp
next
  case (Cons y ys)
  have "fmax (Fin x) (Fin y) = Fin (max x y)" by (simp add: fmax_def max_def)
  moreover have "Max (insert (max x y) (set ys)) = Max (insert x (insert y (set ys)))"
    by (cases "ys = []") (simp_all add: max.assoc)
  ultimately show ?case using Cons.IH [of "max x y"] by simp
qed

lemma np_min_Fin: "xs \<noteq> [] \<Longrightarrow> np_min (map Fin xs) = Fin (Min (set xs))"
proof (cases xs)
  case Nil
  assume "xs \<noteq> []"
  with Nil show ?thesis by simp
next
  case (Cons y ys)
  have "np_min (map Fin xs) = foldl fmin (Fin y) (map Fin ys)"
    unfolding np_min_def dropna_Fin by (simp add: Cons)
  then show ?thesis by (simp only: foldl_fmin_Fin Cons)
qed

lemma np_max_Fin: "xs \<noteq> [] \<Longrightarrow> np_max (map Fin xs) = Fin (Max (set xs))"
proof (cases xs)
  case Nil
  assume "xs \<noteq> []"
  with Nil show ?thesis by simp
next
  case (Cons y ys)
  have "np_max (map Fin xs) = foldl fmax (Fin y) (map Fin ys)"
    unfolding np_max_def dropna_Fin by (simp add: Cons)
  then show ?thesis by (simp only: foldl_fmax_Fin Cons)
qed

lemma simulate_loop_points:
  "\<forall>i \<in> set todo. i < nrows wb \<Longrightarrow>
   simulate_loop wb todo (points_frame ps) a =
     (Inr (points_frame (ps @ map (\<lambda>i. sampled_point a (map (item wb i) [0..<ncols wb])) todo)),
      if todo = [] then a else a\<lparr>weights := map (item wb (last todo)) [0..<ncols wb]\<rparr>)"
proof (induction todo arbitrary: ps a)
  case Nil
  then show ?case by simp
next
  case (Cons i todo)
  have sp: "\<And>r r'. sampled_point (a\<lparr>weights := r\<rparr>) r' = sampled_point a r'"
    by (simp add: sampled_point_def)
  from Cons.prems have i: "i < nrows wb" and rest: "\<forall>i \<in> set todo. i < nrows wb" by simp_all
  show ?case
    using i Cons.IH [OF rest]
    by (simp add: np_row_def Let_def pd_concat_point sp)
      (simp add: sampled_point_def)
qed


lemma points_frame_columns:
  "ps \<noteq> [] \<Longrightarrow>
   df_getitem (points_frame ps) ''Expected Return'' = Inr (map fst ps) \<and>
   df_getitem (points_frame ps) ''Volatility'' = Inr (map snd ps) \<and>
   frame_len (points_frame ps) = length ps"
  by (simp add: points_frame_def df_getitem_def frame_len_def)

lemma simulate_result:
  assumes ri: "randint 100 (N_SIMULATION_MEAN_VAR, length (ticker_symbols (assets w))) (rng w)
                 = (Inr ri, g)"
    and wb: "generate_random_asset_weight_distribution w = (Inr wb, w1)"
  shows "simulate_expected_return_volatility_distribution w =
     (Inr (points_frame (map (\<lambda>i. sampled_point (assets w) (map (item wb i) [0..<ncols wb]))
                           [0..<N_SIMULATION_MEAN_VAR])),
      w1\<lparr>assets := (assets w)\<lparr>weights :=
             map (item wb (N_SIMULATION_MEAN_VAR - 1)) [0..<ncols wb]\<rparr>\<rparr>)
     \<and> nrows wb = N_SIMULATION_MEAN_VAR \<and> w1 = w\<lparr>rng := g\<rparr>"
proof -
  from generate_result [OF ri] wb
  have w1: "w1 = w\<lparr>rng := g\<rparr>" and rows: "nrows wb = nrows ri" by auto
  from randint_shape [OF ri] rows have n: "nrows wb = N_SIMULATION_MEAN_VAR" by simp
  have inside: "\<forall>i \<in> set [0..<N_SIMULATION_MEAN_VAR]. i < nrows wb" using n by simp
  have a1: "assets w1 = assets w" using w1 by simp
  have nonempty: "[0..<N_SIMULATION_MEAN_VAR] \<noteq> []" by (simp add: N_SIMULATION_MEAN_VAR_def)
  have last: "last [0..<N_SIMULATION_MEAN_VAR] = N_SIMULATION_MEAN_VAR - 1"
    by (simp add: N_SIMULATION_MEAN_VAR_def)
  have start: "pd_DataFrame = points_frame []" by (simp add: points_frame_def)
  have loop: "simulate_loop wb [0..<N_SIMULATION_MEAN_VAR] pd_DataFrame (assets w) =
     (Inr (points_frame (map (\<lambda>i. sampled_point (assets w) (map (item wb i) [0..<ncols wb]))
                           [0..<N_SIMULATION_MEAN_VAR])),
      (assets w)\<lparr>weights := map (item wb (N_SIMULATION_MEAN_VAR - 1)) [0..<ncols wb]\<rparr>)"
    unfolding start using simulate_loop_points [OF inside, of "[]" "assets w"] nonempty last
    by simp
  show ?thesis
    using n w1 by (simp add: simulate_expected_return_volatility_distribution_def wb a1 loop)
qed

lemma target_means_space_column:
  "df_getitem d ''Expected Return'' = Inr column \<Longrightarrow>
   target_means_space d =
     Inr (linspace (np_min column) (np_max column) N_SIMULATION_EFFICIENT_FRONTIER)"
  by (simp add: target_means_space_def)

lemma target_means_space_length:
  "target_means_space d = Inr space \<Longrightarrow> length space = N_SIMULATION_EFFICIENT_FRONTIER"
  by (auto simp: target_means_space_def length_linspace split: sum.splits)

lemma sweep_result:
  assumes dist: "self_mean_var_dist self = Some d"
    and space: "target_means_space d = Inr space"
  shows "compute_efficient_frontier_path self w =
     (Inr (points_frame (fst (sweep_targets (self_portfolio_optimizer_class self) space (assets w)))),
      self,
      w\<lparr>assets := snd (sweep_targets (self_portfolio_optimizer_class self) space (assets w))\<rparr>)"
proof -
  from target_means_space_length [OF space]
  have len: "length space = N_SIMULATION_EFFICIENT_FRONTIER" .
  then have inside: "\<forall>i \<in> set [0..<N_SIMULATION_EFFICIENT_FRONTIER]. i < length space" by simp
  have all: "map (\<lambda>i. space ! i) [0..<N_SIMULATION_EFFICIENT_FRONTIER] = space"
    using len map_nth [of space] by simp
  have start: "pd_DataFrame = points_frame []" by (simp add: points_frame_def)
  have loop: "frontier_loop (self_portfolio_optimizer_class self) space
                [0..<N_SIMULATION_EFFICIENT_FRONTIER] pd_DataFrame (assets w) =
     (Inr (points_frame (fst (sweep_targets (self_portfolio_optimizer_class self) space (assets w)))),
      snd (sweep_targets (self_portfolio_optimizer_class self) space (assets w)))"
    unfolding start
    using frontier_loop_points [OF inside, of "self_portfolio_optimizer_class self" "[]" "assets w"]
    by (simp add: all)
  show ?thesis
    by (simp add: compute_efficient_frontier_path_def dist space loop)
qed

lemma sorted_wrt_subseq: "subseq xs ys \<Longrightarrow> sorted_wrt P ys \<Longrightarrow> sorted_wrt P xs"
  by (induction rule: list_emb.induct) (auto dest: list_emb_set)

lemma evenly_spaced_sorted:
  fixes lo hi :: real
  assumes "lo \<le> hi"
  shows "sorted (map (\<lambda>i. lo + real i * ((hi - lo) / 99)) [0..<n])"
proof -
  have "sorted_wrt (\<lambda>i j. lo + real i * ((hi - lo) / 99) \<le> lo + real j * ((hi - lo) / 99)) [0..<n]"
  proof (rule sorted_wrt_mono_rel [of _ "(<)"])
    fix i j :: nat assume "i < j"
    then have "real i \<le> real j" by simp
    moreover have "0 \<le> (hi - lo) / 99" using assms by simp
    ultimately show "lo + real i * ((hi - lo) / 99) \<le> lo + real j * ((hi - lo) / 99)"
      by (simp add: mult_right_mono)
  qed simp
  then show ?thesis by (simp add: sorted_map)
qed



lemma read_accessors_stored:
  "read_accessors calls self =
     (map (\<lambda>c. case c of Mean_variance_distribution \<Rightarrow> self_mean_var_dist self
                        | Efficient_frontier \<Rightarrow> self_efficient_frontier self) calls, self)"
proof (induction calls)
  case Nil
  then show ?case by simp
next
  case (Cons c calls)
  then show ?case
    by (cases c) (simp_all add: mean_variance_distribution_def efficient_frontier_def)
qed

lemma simulate_total:
  "\<exists>ps w1. simulate_expected_return_volatility_distribution w = (Inr (points_frame ps), w1) \<and>
            length ps = N_SIMULATION_MEAN_VAR"
proof -
  let ?n = "length (ticker_symbols (assets w))"
  obtain ri g where ri: "randint 100 (N_SIMULATION_MEAN_VAR, ?n) (rng w) = (Inr ri, g)"
    using randint_100 by blast
  obtain wb w1 where wb: "generate_random_asset_weight_distribution w = (Inr wb, w1)"
    using generate_result [OF ri] by blast
  from simulate_result [OF ri wb] show ?thesis by (intro exI conjI) (auto)
qed

lemma sweep_targets_stateless:
  assumes "\<And>opt a. fit cls opt a = (opt, a)"
  shows "sweep_targets cls ts a =
     (concat (map (\<lambda>t. case optimal_variance cls (construct cls t) of
                            None \<Rightarrow> [] | Some v \<Rightarrow> [(t, v)]) ts), a)"
  by (induction ts) (simp_all add: assms split: option.splits)

lemma threshold_sweep:
  fixes t :: "nat \<Rightarrow> real"
  assumes low: "\<And>i. i < k \<Longrightarrow> \<not> 15 / 100 \<le> t i"
    and high: "\<And>i. k \<le> i \<Longrightarrow> 15 / 100 \<le> t i"
    and kn: "k \<le> n"
  shows "fst (sweep_targets threshold_optimizer (map (\<lambda>i. Fin (t i)) [0..<n]) a)
     = map (\<lambda>i. (Fin (t i), Fin (t i * (1 / 10)))) [k..<n]"
proof -
  let ?g = "\<lambda>x. case optimal_variance threshold_optimizer (construct threshold_optimizer x) of
                   None \<Rightarrow> [] | Some v \<Rightarrow> [(x, v)]"
  have split: "[0..<n] = [0..<k] @ [k..<n]"
    using upt_add_eq_append [of 0 k "n - k"] kn by simp
  have none: "concat (map (\<lambda>i. ?g (Fin (t i))) [0..<k]) = []"
    using low by (simp add: threshold_optimizer_def)
  have "map (\<lambda>i. ?g (Fin (t i))) [k..<n]
          = map (\<lambda>i. [(Fin (t i), Fin (t i * (1 / 10)))]) [k..<n]"
    using high by (intro map_cong refl) (simp add: threshold_optimizer_def)
  then have some: "concat (map (\<lambda>i. ?g (Fin (t i))) [k..<n])
          = map (\<lambda>i. (Fin (t i), Fin (t i * (1 / 10)))) [k..<n]"
    by (simp only: concat_map_singleton)
  have stateless: "\<And>opt a. fit threshold_optimizer opt a = (opt, a)"
    by (simp add: threshold_optimizer_def)
  have "fst (sweep_targets threshold_optimizer (map (\<lambda>i. Fin (t i)) [0..<n]) a)
          = concat (map (\<lambda>i. ?g (Fin (t i))) [0..<k]) @ concat (map (\<lambda>i. ?g (Fin (t i))) [k..<n])"
    unfolding sweep_targets_stateless [of threshold_optimizer, OF stateless] split
    by (simp add: comp_def)
  with none some show ?thesis by simp
qed

section \<open>The claims\<close>



text \<open>
  Claim C8. The sampler has no guard for a row of draws that sums to zero: it returns a
  batch all the same, after one call of the generator and without an exception; the row's
  normalisation factor is the quotient \<open>1.0 / 0\<close>, the value \<^verbatim>\<open>inf\<close>, and every weight of
  the row is \<^verbatim>\<open>nan\<close>.
\<close>

theorem sampler_divides_by_zero_on_zero_row:
  assumes ri: "randint 100 (N_SIMULATION_MEAN_VAR, length (ticker_symbols (assets w))) (rng w)
                 = (Inr ri, g)"
    and draws: "np_row ri i = Inr draws"
    and zero: "sum_list draws = 0"
  shows "\<exists>weights_batch.
           generate_random_asset_weight_distribution w = (Inr weights_batch, w\<lparr>rng := g\<rparr>) \<and>
           norm_factor ri ! i = fdiv (Fin 1) (Fin 0) \<and>
           norm_factor ri ! i = PInf \<and>
           np_row weights_batch i = Inr (replicate (length draws) NaN)"
proof -
  from np_row_Inr [OF draws] have i: "i < nrows ri" by simp
  have nf: "norm_factor ri ! i = fdiv (Fin 1) (Fin 0)"
    using norm_factor_nth [OF i draws] zero by simp
  have inf: "fdiv (Fin 1) (Fin 0) = PInf" by (simp add: inf_of_sign_def)
  have "map (\<lambda>d. fmul (Fin (real d)) (fdiv (Fin 1) (Fin (real (sum_list draws))))) draws
          = replicate (length draws) NaN"
  proof (rule nth_equalityI)
    show "length (map (\<lambda>d. fmul (Fin (real d)) (fdiv (Fin 1) (Fin (real (sum_list draws))))) draws)
            = length (replicate (length draws) NaN)" by simp
  next
    fix j assume "j < length (map (\<lambda>d. fmul (Fin (real d)) (fdiv (Fin 1) (Fin (real (sum_list draws))))) draws)"
    then have j: "j < length draws" by simp
    then have "draws ! j = 0" using sum_zero_all_zero [OF zero] by simp
    with j show "map (\<lambda>d. fmul (Fin (real d)) (fdiv (Fin 1) (Fin (real (sum_list draws))))) draws ! j
            = replicate (length draws) NaN ! j"
      using zero by (simp add: inf_of_sign_def)
  qed
  with normalized_row [OF draws]
  have row: "np_row \<lparr> nrows = nrows ri, ncols = ncols ri,
            item = (\<lambda>i j. fmul (Fin (real (item ri i j))) (norm_factor ri ! i)) \<rparr> i
         = Inr (replicate (length draws) NaN)"
    by simp
  from generate_result [OF ri] row nf inf show ?thesis by simp
qed

theorem sampler_divides_by_zero_on_zero_row_witness:
  "\<exists>ri g weights_batch.
     randint 100 (N_SIMULATION_MEAN_VAR, length (ticker_symbols (assets example_world)))
         (rng example_world) = (Inr ri, g) \<and>
     np_row ri 0 = Inr [0, 0 :: nat] \<and> sum_list [0, 0 :: nat] = 0 \<and>
     generate_random_asset_weight_distribution example_world
       = (Inr weights_batch, example_world\<lparr>rng := g\<rparr>) \<and>
     np_row weights_batch 0 = Inr [NaN, NaN]"
proof -
  let ?n = "length (ticker_symbols (assets example_world))"
  let ?ri = "\<lparr> nrows = N_SIMULATION_MEAN_VAR, ncols = ?n,
               item = (\<lambda>i j. rng example_world (i * ?n + j) mod 100) \<rparr>"
  let ?g = "\<lambda>k. rng example_world (k + N_SIMULATION_MEAN_VAR * ?n)"
  have ri: "randint 100 (N_SIMULATION_MEAN_VAR, ?n) (rng example_world) = (Inr ?ri, ?g)"
    by (rule randint_100)
  have draws: "np_row ?ri 0 = Inr [0, 0 :: nat]"
    by (simp add: np_row_def example_world_def example_assets_def N_SIMULATION_MEAN_VAR_def
        upt_rec)
  have s: "sum_list [0, 0 :: nat] = 0" by simp
  from sampler_divides_by_zero_on_zero_row [OF ri draws s] obtain weights_batch where
    "generate_random_asset_weight_distribution example_world
       = (Inr weights_batch, example_world\<lparr>rng := ?g\<rparr>)"
    "np_row weights_batch 0 = Inr [NaN, NaN]"
    by (auto simp: numeral_2_eq_2)
  with ri draws s show ?thesis by blast
qed

text \<open>
  Claim C10. For every provider and every set of importable modules, construction with the
  declared default \<^verbatim>\<open>None\<close> for the class name raises \<^verbatim>\<open>AttributeError\<close> in the
  resolution step, and leaves the provider and the generator as they were: no simulation
  has run.
\<close>

theorem default_class_name_fails_before_simulation:
  "init mods w None = (Inl AttributeError, w)"
  by (simp add: init_def load_portfolio_optimizer_class_def)

text \<open>
  Claim C1. The simulator fails for no provider and no generator. Its frame holds exactly
  2000 points, one for each row of the sampled weight batch and in the order of the rows:
  point \<open>i\<close> is the pair of \<open>expected_return\<close> and \<open>volatility\<close> read from the provider
  after row \<open>i\<close> has been assigned as its weights. The rows are assigned one after the
  other, so the provider is left with the last row as its weights.
\<close>

theorem simulator_one_point_per_row_in_order:
  assumes i: "i < N_SIMULATION_MEAN_VAR"
  shows "\<exists>weights_batch w1 ps row last_row.
     generate_random_asset_weight_distribution w = (Inr weights_batch, w1) \<and>
     simulate_expected_return_volatility_distribution w
       = (Inr (points_frame ps), w1\<lparr>assets := (assets w)\<lparr>weights := last_row\<rparr>\<rparr>) \<and>
     length ps = 2000 \<and>
     df_getitem (points_frame ps) ''Expected Return'' = Inr (map fst ps) \<and>
     df_getitem (points_frame ps) ''Volatility'' = Inr (map snd ps) \<and>
     np_row weights_batch i = Inr row \<and>
     ps ! i = (expected_return ((assets w)\<lparr>weights := row\<rparr>),
               volatility ((assets w)\<lparr>weights := row\<rparr>)) \<and>
     np_row weights_batch (N_SIMULATION_MEAN_VAR - 1) = Inr last_row"
proof -
  let ?n = "length (ticker_symbols (assets w))"
  obtain ri g where ri: "randint 100 (N_SIMULATION_MEAN_VAR, ?n) (rng w) = (Inr ri, g)"
    using randint_100 by blast
  obtain wb w1 where wb: "generate_random_asset_weight_distribution w = (Inr wb, w1)"
    using generate_result [OF ri] by blast
  let ?ps = "map (\<lambda>i. sampled_point (assets w) (map (item wb i) [0..<ncols wb]))
               [0..<N_SIMULATION_MEAN_VAR]"
  let ?last = "map (item wb (N_SIMULATION_MEAN_VAR - 1)) [0..<ncols wb]"
  from simulate_result [OF ri wb]
  have sim: "simulate_expected_return_volatility_distribution w
       = (Inr (points_frame ?ps), w1\<lparr>assets := (assets w)\<lparr>weights := ?last\<rparr>\<rparr>)"
    and n: "nrows wb = N_SIMULATION_MEAN_VAR" by simp_all
  have len: "length ?ps = 2000" by (simp add: N_SIMULATION_MEAN_VAR_def)
  then have "?ps \<noteq> []" by auto
  note cols = points_frame_columns [OF this]
  have row: "np_row wb i = Inr (map (item wb i) [0..<ncols wb])"
    using i n by (simp add: np_row_def)
  have lastrow: "np_row wb (N_SIMULATION_MEAN_VAR - 1) = Inr ?last"
    using n by (simp add: np_row_def N_SIMULATION_MEAN_VAR_def)
  have pt: "?ps ! i = (expected_return ((assets w)\<lparr>weights := map (item wb i) [0..<ncols wb]\<rparr>),
               volatility ((assets w)\<lparr>weights := map (item wb i) [0..<ncols wb]\<rparr>))"
    using i by (simp add: sampled_point_def)
  from wb sim len cols row pt lastrow show ?thesis by blast
qed

theorem simulator_one_point_per_row_in_order_witness:
  "(4::nat) < N_SIMULATION_MEAN_VAR \<and>
   (\<exists>ps w'. simulate_expected_return_volatility_distribution example_world
               = (Inr (points_frame ps), w') \<and>
             length ps = 2000 \<and> ps ! 4 = (Fin (4 / 25), Fin (17 / 250)))"
proof -
  have i: "(4::nat) < N_SIMULATION_MEAN_VAR" by (simp add: N_SIMULATION_MEAN_VAR_def)
  let ?n = "length (ticker_symbols (assets example_world))"
  let ?ri = "\<lparr> nrows = N_SIMULATION_MEAN_VAR, ncols = ?n,
               item = (\<lambda>i j. rng example_world (i * ?n + j) mod 100) \<rparr>"
  have ri: "randint 100 (N_SIMULATION_MEAN_VAR, ?n) (rng example_world)
              = (Inr ?ri, (\<lambda>k. rng example_world (k + N_SIMULATION_MEAN_VAR * ?n)))"
    by (rule randint_100)
  have draws: "np_row ?ri 4 = Inr [2, 3]"
    by (simp add: np_row_def example_world_def example_assets_def N_SIMULATION_MEAN_VAR_def
        upt_rec)
  from simulator_one_point_per_row_in_order [OF i, of example_world]
  obtain weights_batch w1 ps row last_row where
    g: "generate_random_asset_weight_distribution example_world = (Inr weights_batch, w1)" and
    s: "simulate_expected_return_volatility_distribution example_world
       = (Inr (points_frame ps), w1\<lparr>assets := (assets example_world)\<lparr>weights := last_row\<rparr>\<rparr>)" and
    l: "length ps = 2000" and
    r: "np_row weights_batch 4 = Inr row" and
    p: "ps ! 4 = (expected_return ((assets example_world)\<lparr>weights := row\<rparr>),
               volatility ((assets example_world)\<lparr>weights := row\<rparr>))"
    by blast
  from generate_result [OF ri] g normalized_row [OF draws] r
  have "row = [Fin (2 / 5), Fin (3 / 5)]" by simp
  with p have "ps ! 4 = (Fin (4 / 25), Fin (17 / 250))"
    by (simp add: expected_return_def volatility_def example_world_def example_assets_def dot_def)
  with i s l show ?thesis by blast
qed



text \<open>
  Claim C4. Whenever the distribution has the column of expected returns, the sweeper
  raises nothing, and its frontier holds exactly the points that the specification's sweep
  over the 100 target levels gives: for each level in order the point of the level and the
  optimizer's variance when the variance is present, nothing when it is absent. The
  expected returns of the frontier are therefore a subsequence of the levels, at most 100
  and ascending where the levels ascend, and an optimizer that always reports absence
  leaves the frontier empty.
\<close>

theorem sweeper_keeps_feasible_targets_only:
  assumes dist: "self_mean_var_dist self = Some d"
    and col: "df_getitem d ''Expected Return'' = Inr column"
  shows "\<exists>space ps a'.
     target_means_space d = Inr space \<and> length space = 100 \<and>
     compute_efficient_frontier_path self w = (Inr (points_frame ps), self, w\<lparr>assets := a'\<rparr>) \<and>
     sweep_targets (self_portfolio_optimizer_class self) space (assets w) = (ps, a') \<and>
     subseq (map fst ps) space \<and> length ps \<le> 100 \<and>
     (sorted_wrt fle space \<longrightarrow> sorted_wrt fle (map fst ps)) \<and>
     ((\<forall>opt. optimal_variance (self_portfolio_optimizer_class self) opt = None) \<longrightarrow>
        ps = [] \<and> points_frame ps = pd_DataFrame)"
proof -
  let ?cls = "self_portfolio_optimizer_class self"
  let ?space = "linspace (np_min column) (np_max column) N_SIMULATION_EFFICIENT_FRONTIER"
  have space: "target_means_space d = Inr ?space" by (rule target_means_space_column [OF col])
  have len: "length ?space = 100"
    by (simp add: length_linspace N_SIMULATION_EFFICIENT_FRONTIER_def)
  obtain ps a' where sw: "sweep_targets ?cls ?space (assets w) = (ps, a')"
    by (cases "sweep_targets ?cls ?space (assets w)")
  from sweep_result [OF dist space, of w] sw
  have res: "compute_efficient_frontier_path self w
               = (Inr (points_frame ps), self, w\<lparr>assets := a'\<rparr>)" by simp
  from sweep_targets_subseq [of ?cls ?space "assets w"] sw
  have sub: "subseq (map fst ps) ?space" by simp
  from sweep_targets_length [of ?cls ?space "assets w"] sw len
  have le: "length ps \<le> 100" by simp
  have asc: "sorted_wrt fle ?space \<longrightarrow> sorted_wrt fle (map fst ps)"
    using sorted_wrt_subseq [OF sub] by blast
  have none: "(\<forall>opt. optimal_variance ?cls opt = None) \<longrightarrow> ps = [] \<and> points_frame ps = pd_DataFrame"
  proof
    assume "\<forall>opt. optimal_variance ?cls opt = None"
    then have "fst (sweep_targets ?cls ?space (assets w)) = []"
      by (intro sweep_targets_infeasible) simp
    with sw show "ps = [] \<and> points_frame ps = pd_DataFrame" by (simp add: points_frame_def)
  qed
  from space len res sw sub le asc none show ?thesis by blast
qed

theorem sweeper_keeps_feasible_targets_only_witness:
  "(self_mean_var_dist (example_simulation infeasible_optimizer two_point_distribution) = Some two_point_distribution \<and>
   df_getitem two_point_distribution ''Expected Return'' = Inr [Fin (2 / 10), Fin (1 / 10)] \<and>
   (\<forall>opt. optimal_variance
            (self_portfolio_optimizer_class (example_simulation infeasible_optimizer two_point_distribution)) opt = None) \<and>
   compute_efficient_frontier_path (example_simulation infeasible_optimizer two_point_distribution) example_world
     = (Inr pd_DataFrame, example_simulation infeasible_optimizer two_point_distribution, example_world)) \<and>
   (self_mean_var_dist (example_simulation threshold_optimizer two_point_distribution)
     = Some two_point_distribution \<and>
   df_getitem two_point_distribution ''Expected Return'' = Inr [Fin (2 / 10), Fin (1 / 10)] \<and>
   (\<exists>ps w'. compute_efficient_frontier_path
               (example_simulation threshold_optimizer two_point_distribution) example_world
             = (Inr (points_frame ps),
                example_simulation threshold_optimizer two_point_distribution, w') \<and>
            length ps = 50 \<and> ps ! 0 = (Fin (149 / 990), Fin (149 / 9900)) \<and>
            ps ! 49 = (Fin (2 / 10), Fin (2 / 100)) \<and> sorted_wrt fle (map fst ps)))"
proof -
  have infeasible:
    "self_mean_var_dist (example_simulation infeasible_optimizer two_point_distribution) = Some two_point_distribution \<and>
   df_getitem two_point_distribution ''Expected Return'' = Inr [Fin (2 / 10), Fin (1 / 10)] \<and>
   (\<forall>opt. optimal_variance
            (self_portfolio_optimizer_class (example_simulation infeasible_optimizer two_point_distribution)) opt = None) \<and>
   compute_efficient_frontier_path (example_simulation infeasible_optimizer two_point_distribution) example_world
     = (Inr pd_DataFrame, example_simulation infeasible_optimizer two_point_distribution, example_world)"
  proof -
    let ?self = "example_simulation infeasible_optimizer two_point_distribution"
    have dist: "self_mean_var_dist ?self = Some two_point_distribution"
      by (simp add: example_simulation_def)
    have col: "df_getitem two_point_distribution ''Expected Return''
                 = Inr [Fin (2 / 10), Fin (1 / 10)]"
      by (simp add: df_getitem_def two_point_distribution_def)
    have none: "\<forall>opt. optimal_variance (self_portfolio_optimizer_class ?self) opt = None"
      by (simp add: example_simulation_def infeasible_optimizer_def)
    have fit: "\<And>ts a. snd (sweep_targets (self_portfolio_optimizer_class ?self) ts a) = a"
    proof -
      fix ts a show "snd (sweep_targets (self_portfolio_optimizer_class ?self) ts a) = a"
        by (induction ts) (simp_all add: example_simulation_def infeasible_optimizer_def
            split: prod.splits)
    qed
    from sweeper_keeps_feasible_targets_only [OF dist col, of example_world] none
    obtain space a' where
      "compute_efficient_frontier_path ?self example_world
         = (Inr pd_DataFrame, ?self, example_world\<lparr>assets := a'\<rparr>)"
      "sweep_targets (self_portfolio_optimizer_class ?self) space (assets example_world) = ([], a')"
      by auto
    with fit [of space "assets example_world"]
    have "compute_efficient_frontier_path ?self example_world
            = (Inr pd_DataFrame, ?self, example_world)" by simp
    with dist col none show ?thesis by blast
  qed
  have feasible:
    "self_mean_var_dist (example_simulation threshold_optimizer two_point_distribution)
     = Some two_point_distribution \<and>
   df_getitem two_point_distribution ''Expected Return'' = Inr [Fin (2 / 10), Fin (1 / 10)] \<and>
   (\<exists>ps w'. compute_efficient_frontier_path
               (example_simulation threshold_optimizer two_point_distribution) example_world
             = (Inr (points_frame ps),
                example_simulation threshold_optimizer two_point_distribution, w') \<and>
            length ps = 50 \<and> ps ! 0 = (Fin (149 / 990), Fin (149 / 9900)) \<and>
            ps ! 49 = (Fin (2 / 10), Fin (2 / 100)) \<and> sorted_wrt fle (map fst ps))"
  proof -
    let ?self = "example_simulation threshold_optimizer two_point_distribution"
    let ?t = "\<lambda>i :: nat. 1 / 10 + real i * ((2 / 10 - 1 / 10) / 99)"
    have dist: "self_mean_var_dist ?self = Some two_point_distribution"
      by (simp add: example_simulation_def)
    have col: "df_getitem two_point_distribution ''Expected Return''
                 = Inr [Fin (2 / 10), Fin (1 / 10)]"
      by (simp add: df_getitem_def two_point_distribution_def)
    have cls: "self_portfolio_optimizer_class ?self = threshold_optimizer"
      by (simp add: example_simulation_def)
    have lo: "np_min [Fin (2 / 10), Fin (1 / 10)] = Fin (1 / 10)"
      using np_min_Fin [of "[2 / 10, 1 / 10]"] by simp
    have hi: "np_max [Fin (2 / 10), Fin (1 / 10)] = Fin (2 / 10)"
      using np_max_Fin [of "[2 / 10, 1 / 10]"] by simp
    have space: "target_means_space two_point_distribution = Inr (map (\<lambda>i. Fin (?t i)) [0..<100])"
      unfolding target_means_space_column [OF col] lo hi N_SIMULATION_EFFICIENT_FRONTIER_def
        linspace_finite ..
    have low: "\<And>i :: nat. i < 50 \<Longrightarrow> \<not> 15 / 100 \<le> ?t i"
    proof -
      fix i :: nat assume "i < 50"
      then have "real i \<le> 49" by simp
      then show "\<not> 15 / 100 \<le> ?t i" by simp
    qed
    have high: "\<And>i :: nat. 50 \<le> i \<Longrightarrow> 15 / 100 \<le> ?t i"
    proof -
      fix i :: nat assume "50 \<le> i"
      then have "50 \<le> real i" by simp
      then show "15 / 100 \<le> ?t i" by simp
    qed
    have points: "fst (sweep_targets threshold_optimizer (map (\<lambda>i. Fin (?t i)) [0..<100])
                         (assets example_world))
                    = map (\<lambda>i. (Fin (?t i), Fin (?t i * (1 / 10)))) [50..<100]"
      by (rule threshold_sweep [of 50 ?t 100, OF low high]) simp_all
    from sweeper_keeps_feasible_targets_only [OF dist col, of example_world]
    obtain space' ps a' where
      s': "target_means_space two_point_distribution = Inr space'" and
      res: "compute_efficient_frontier_path ?self example_world
              = (Inr (points_frame ps), ?self, example_world\<lparr>assets := a'\<rparr>)" and
      sw: "sweep_targets (self_portfolio_optimizer_class ?self) space' (assets example_world)
              = (ps, a')" and
      asc: "sorted_wrt fle space' \<longrightarrow> sorted_wrt fle (map fst ps)"
      by blast
    from s' space have space': "space' = map (\<lambda>i. Fin (?t i)) [0..<100]" by simp
    have "sorted (map ?t [0..<100])"
      by (rule evenly_spaced_sorted) simp
    then have "sorted_wrt fle space'"
      unfolding space' by (simp add: sorted_wrt_map sorted_map del: upt_rec_numeral)
    with asc have ascending: "sorted_wrt fle (map fst ps)" by blast
    from space' sw cls points have ps: "ps = map (\<lambda>i. (Fin (?t i), Fin (?t i * (1 / 10)))) [50..<100]"
      by simp
    have "length ps = 50" by (simp add: ps)
    moreover have "ps ! 0 = (Fin (149 / 990), Fin (149 / 9900))"
      unfolding ps by (simp del: upt_rec_numeral)
    moreover have "ps ! 49 = (Fin (2 / 10), Fin (2 / 100))"
      unfolding ps by (simp del: upt_rec_numeral)
    ultimately show ?thesis using dist col res ascending by blast
  qed
  from infeasible feasible show ?thesis by (rule conjI)
qed

text \<open>
  Claim C9. When the least and the greatest expected return of a distribution of finite
  values agree, the 100 target levels are that one value, 100 times. The divisor of
  \<open>linspace\<close> is 99, not zero, and no level is \<^verbatim>\<open>inf\<close> or \<^verbatim>\<open>nan\<close>, as a division by
  zero would leave it.
\<close>

theorem degenerate_range_repeats_single_target:
  assumes col: "df_getitem d ''Expected Return'' = Inr (map Fin xs)"
    and ne: "xs \<noteq> []"
    and eq: "Min (set xs) = Max (set xs)"
  shows "linspace_div N_SIMULATION_EFFICIENT_FRONTIER = 99 \<and>
         np_min (map Fin xs) = np_max (map Fin xs) \<and>
         target_means_space d = Inr (replicate 100 (Fin (Min (set xs))))"
proof -
  have dv: "linspace_div N_SIMULATION_EFFICIENT_FRONTIER = 99"
    by (simp add: linspace_div_def N_SIMULATION_EFFICIENT_FRONTIER_def)
  have lo: "np_min (map Fin xs) = Fin (Min (set xs))" by (rule np_min_Fin [OF ne])
  have hi: "np_max (map Fin xs) = Fin (Min (set xs))" using np_max_Fin [OF ne] eq by simp
  have "linspace (Fin (Min (set xs))) (Fin (Min (set xs))) 100
          = replicate 100 (Fin (Min (set xs)))"
    by (simp add: linspace_finite map_replicate_const)
  with target_means_space_column [OF col] lo hi dv show ?thesis
    by (simp add: N_SIMULATION_EFFICIENT_FRONTIER_def)
qed

theorem degenerate_range_repeats_single_target_witness:
  "df_getitem constant_distribution ''Expected Return''
     = Inr (map Fin [1 / 10, 1 / 10, 1 / 10]) \<and>
   [1 / 10, 1 / 10, 1 / 10 :: real] \<noteq> [] \<and>
   Min (set [1 / 10, 1 / 10, 1 / 10 :: real]) = Max (set [1 / 10, 1 / 10, 1 / 10]) \<and>
   target_means_space constant_distribution = Inr (replicate 100 (Fin (1 / 10)))"
proof -
  have col: "df_getitem constant_distribution ''Expected Return''
     = Inr (map Fin [1 / 10, 1 / 10, 1 / 10])"
    by (simp add: df_getitem_def constant_distribution_def)
  have ne: "[1 / 10, 1 / 10, 1 / 10 :: real] \<noteq> []" by simp
  have eq: "Min (set [1 / 10, 1 / 10, 1 / 10 :: real]) = Max (set [1 / 10, 1 / 10, 1 / 10])"
    by simp
  from degenerate_range_repeats_single_target [OF col ne eq] col ne eq
  show ?thesis by simp
qed






text \<open>
  Claim C7. Whenever the class name resolves, construction succeeds, and it has by then
  computed both results: the stored distribution is the simulator's frame and the stored
  frontier is what the sweeper returns for that frame. Every sequence of reads of the two
  properties returns these stored frames, each time the same, and leaves the instance as
  it was.
\<close>

theorem accessors_return_stored_results:
  assumes cls: "load_portfolio_optimizer_class mods name = Inr cls"
  shows "\<exists>self w' d f w1.
     init mods w name = (Inr self, w') \<and>
     simulate_expected_return_volatility_distribution w = (Inr d, w1) \<and>
     compute_efficient_frontier_path
         \<lparr> self_portfolio_optimizer_class = cls, self_mean_var_dist = Some d,
           self_efficient_frontier = None \<rparr> w1
       = (Inr f, \<lparr> self_portfolio_optimizer_class = cls, self_mean_var_dist = Some d,
                   self_efficient_frontier = None \<rparr>, w') \<and>
     self_mean_var_dist self = Some d \<and>
     self_efficient_frontier self = Some f \<and>
     (\<forall>calls. read_accessors calls self =
        (map (\<lambda>c. case c of Mean_variance_distribution \<Rightarrow> Some d
                           | Efficient_frontier \<Rightarrow> Some f) calls, self))"
proof -
  obtain ps w1 where sim: "simulate_expected_return_volatility_distribution w
                             = (Inr (points_frame ps), w1)"
    and len: "length ps = N_SIMULATION_MEAN_VAR"
    using simulate_total by blast
  let ?d = "points_frame ps"
  let ?self0 = "\<lparr> self_portfolio_optimizer_class = cls, self_mean_var_dist = Some ?d,
                  self_efficient_frontier = None \<rparr>"
  from len have "ps \<noteq> []" by (auto simp: N_SIMULATION_MEAN_VAR_def)
  from points_frame_columns [OF this]
  have col: "df_getitem ?d ''Expected Return'' = Inr (map fst ps)" by simp
  have dist: "self_mean_var_dist ?self0 = Some ?d" by simp
  obtain f w' where sweep: "compute_efficient_frontier_path ?self0 w1 = (Inr f, ?self0, w')"
    using sweep_result [OF dist target_means_space_column [OF col], of w1] by blast
  let ?self = "?self0\<lparr>self_efficient_frontier := Some f\<rparr>"
  have init: "init mods w name = (Inr ?self, w')"
    by (simp add: init_def cls sim sweep)
  have reads: "\<forall>calls. read_accessors calls ?self =
        (map (\<lambda>c. case c of Mean_variance_distribution \<Rightarrow> Some ?d
                           | Efficient_frontier \<Rightarrow> Some f) calls, ?self)"
    by (simp add: read_accessors_stored split: accessor.splits)
  have "self_mean_var_dist ?self = Some ?d" "self_efficient_frontier ?self = Some f"
    by simp_all
  with init sim sweep reads show ?thesis by blast
qed

theorem accessors_return_stored_results_witness:
  "load_portfolio_optimizer_class example_modules (Some ''mock.optimizers.Threshold'')
     = Inr threshold_optimizer \<and>
   (\<exists>self w' d f.
      init example_modules example_world (Some ''mock.optimizers.Threshold'') = (Inr self, w') \<and>
      read_accessors [Mean_variance_distribution, Efficient_frontier, Mean_variance_distribution,
                      Efficient_frontier] self
        = ([Some d, Some f, Some d, Some f], self))"
proof -
  have l: "load_portfolio_optimizer_class example_modules (Some ''mock.optimizers.Threshold'')
             = Inr threshold_optimizer"
    by (simp add: load_portfolio_optimizer_class_def rsplit1_def import_module_def
        example_modules_def getattr_def)
  from accessors_return_stored_results [OF l, of example_world]
  obtain self w' d f where
    i: "init example_modules example_world (Some ''mock.optimizers.Threshold'') = (Inr self, w')"
    and r: "\<forall>calls. read_accessors calls self =
        (map (\<lambda>c. case c of Mean_variance_distribution \<Rightarrow> Some d
                           | Efficient_frontier \<Rightarrow> Some f) calls, self)"
    by blast
  from r have "read_accessors [Mean_variance_distribution, Efficient_frontier,
                  Mean_variance_distribution, Efficient_frontier] self
        = ([Some d, Some f, Some d, Some f], self)"
    by simp
  with l i show ?thesis by blast
qed

end
